theory Spec2Isabelle
  imports Complex_Main "HOL-Library.Monad_Syntax" "HOL-Library.Char_ord" "HOL-Library.List_Lexorder"
begin

section \<open>Numeric conventions\<close>

text \<open>
  The scripts compute with numpy and pandas floating-point numbers. They are modelled here
  by the reals, in exact arithmetic: rounding of the individual operations is not
  modelled. A result that numpy reports as \<open>nan\<close> or \<open>\<plusminus>inf\<close> (logarithm of a
  non-positive number, square root of a negative number, division by zero) is the value
  \<open>None\<close> of type \<open>real option\<close>; it propagates through the arithmetic that follows,
  as \<open>nan\<close> does.
\<close>

type_synonym npfloat = "real option"

definition np_log :: "real \<Rightarrow> npfloat" where
  "np_log x = (if 0 < x then Some (ln x) else None)"

definition np_sqrt :: "real \<Rightarrow> npfloat" where
  "np_sqrt x = (if 0 \<le> x then Some (sqrt x) else None)"

definition np_div :: "real \<Rightarrow> real \<Rightarrow> npfloat" where
  "np_div x y = (if y = 0 then None else Some (x / y))"

text \<open>The covariance matrix of a two-parameter fit, as rows, and \<open>np.diag\<close> on it.\<close>

type_synonym cov = "(real \<times> real) \<times> (real \<times> real)"

fun np_diag :: "cov \<Rightarrow> real \<times> real" where
  "np_diag ((c00, c01), (c10, c11)) = (c00, c11)"

section \<open>scripts/half\_life\_estimation.py: decay function and half-life\<close>

definition func_exp_decay :: "real \<Rightarrow> real \<Rightarrow> real \<Rightarrow> real" where
  "func_exp_decay x prefactor exp_factor = prefactor * exp (- exp_factor * x)"

definition func_exp_growth :: "real \<Rightarrow> real \<Rightarrow> real \<Rightarrow> real" where
  "func_exp_growth x prefactor exp_factor = - prefactor * exp (- exp_factor * x) + 1"

definition calc_half_life :: "real \<Rightarrow> real \<Rightarrow> npfloat" where
  "calc_half_life prefactor exp_factor =
     do { l \<leftarrow> np_log (2 * prefactor); np_div l exp_factor }"

definition calc_half_life_standard_deviation :: "real \<Rightarrow> real \<Rightarrow> cov \<Rightarrow> npfloat" where
  "calc_half_life_standard_deviation prefactor exp_factor cv =
     (case np_diag cv of (v_prefactor, v_exp_factor) \<Rightarrow>
        do {
          sd_prefactor \<leftarrow> np_sqrt v_prefactor;
          sd_exp_factor \<leftarrow> np_sqrt v_exp_factor;
          q \<leftarrow> np_div sd_prefactor (prefactor * exp_factor);
          let prefac_term = q ^ 2;
          l \<leftarrow> np_log (2 * prefactor);
          r \<leftarrow> np_div (l * sd_exp_factor) (exp_factor ^ 2);
          let exp_term = r ^ 2;
          np_sqrt (prefac_term + exp_term)
        })"

section \<open>turnover\_calculation/new\_utils.py: decay function and half-life\<close>


definition exponential_growth :: "real \<Rightarrow> real \<Rightarrow> real \<Rightarrow> real" where
  "exponential_growth x a b = a * exp (b * x)"

text \<open>\<open>np.sqrt(np.diag(pcov))\<close>: one standard error per fitted parameter.\<close>

definition calculate_standard_error :: "cov \<Rightarrow> npfloat \<times> npfloat" where
  "calculate_standard_error pcov =
     (case np_diag pcov of (v0, v1) \<Rightarrow> (np_sqrt v0, np_sqrt v1))"

text \<open>
  \<open>half_life(popt, pcov)\<close> with \<open>popt = (a, b)\<close>; the value returned is the pair of the
  half-life and its error (\<open>verbose\<close> only prints).
\<close>

definition half_life :: "real \<times> real \<Rightarrow> cov \<Rightarrow> npfloat \<times> npfloat" where
  "half_life popt pcov =
     (let hl = do { l \<leftarrow> np_log 2; np_div l (snd popt) };
          hl_error = do {
            h \<leftarrow> hl;
            se \<leftarrow> snd (calculate_standard_error pcov);
            q \<leftarrow> np_div se (snd popt);
            s \<leftarrow> np_sqrt (q ^ 2);
            Some (h * s) }
      in (hl, hl_error))"

section \<open>Formatting a time in hours (both copies of \<open>pretty_print_time\<close>)\<close>

text \<open>
  \<open>int(x)\<close> on a float truncates towards zero; \<open>math.modf\<close> splits a float into its
  fractional and whole part, both with the sign of the argument; \<open>round(x)\<close> rounds to the
  nearest integer, a tie going to the even neighbour; \<open>str\<close> (used by \<open>format\<close>) writes
  an integer in decimal.
\<close>

definition py_int :: "real \<Rightarrow> int" where
  "py_int x = (if 0 \<le> x then \<lfloor>x\<rfloor> else \<lceil>x\<rceil>)"

definition math_modf :: "real \<Rightarrow> real \<times> real" where
  "math_modf x = (x - of_int (py_int x), of_int (py_int x))"

definition py_round :: "real \<Rightarrow> int" where
  "py_round x =
     (let f = \<lfloor>x\<rfloor>; d = x - of_int f
      in if d < 1 / 2 then f
         else if 1 / 2 < d then f + 1
         else if even f then f else f + 1)"

definition digit_char :: "nat \<Rightarrow> char" where
  "digit_char n = ''0123456789'' ! n"

fun str_nat :: "nat \<Rightarrow> string" where
  "str_nat n = (if n < 10 then [digit_char n] else str_nat (n div 10) @ [digit_char (n mod 10)])"

declare str_nat.simps [simp del]

definition str_int :: "int \<Rightarrow> string" where
  "str_int i = (if i < 0 then CHR ''-'' # str_nat (nat (- i)) else str_nat (nat i))"

text \<open>
  The function has the same text in scripts/half\_life\_estimation.py and in
  turnover\_calculation/new\_utils.py.
\<close>

definition pretty_print_time :: "real \<Rightarrow> string" where
  "pretty_print_time time =
     (case math_modf time of (frac0, whole0) \<Rightarrow>
        let whole = py_int whole0;
            frac = py_round (frac0 * 60)
        in if whole = 0 then str_int frac @ ''min''
           else if whole < 24 then str_int whole @ ''h '' @ str_int frac @ ''min''
           else let days = py_int (of_int whole / 24);
                    hours = whole mod 24
                in str_int days @ ''d '' @ str_int hours @ ''h '' @ str_int frac @ ''min'')"

section \<open>Exceptions\<close>

text \<open>
  A Python exception that leaves a function is the left summand of its result. Only the
  type of the exception is kept.
\<close>

datatype py_error = ValueError | KeyError | TypeError | IndexError | NotImplementedError

text \<open>\<open>.iloc[0]\<close> on a selection of rows: the first one, \<open>IndexError\<close> when there is none.\<close>

definition iloc0 :: "'a list \<Rightarrow> py_error + 'a" where
  "iloc0 xs = (case xs of [] \<Rightarrow> Inl IndexError | x # _ \<Rightarrow> Inr x)"

section \<open>Turnover\<close>

subsection \<open>scripts/half\_life\_estimation.py: \<open>calc_turnover_cell\<close>\<close>

definition calc_turnover_cell :: "real \<Rightarrow> real \<Rightarrow> real \<Rightarrow> real" where
  "calc_turnover_cell prefactor exp_factor nad_amount_cell =
     (let t = 1;
          nad_amount_1h = func_exp_decay t prefactor exp_factor * nad_amount_cell;
          turnover_cell = nad_amount_cell - nad_amount_1h
      in turnover_cell)"

subsection \<open>turnover\_calculation/new\_utils.py: \<open>get_turnover\<close>\<close>

text \<open>
  The table of decay parameters \<open>dpars\<close> and the table of pool sizes \<open>nad_conc\<close> are
  lists of rows, a row's position being its index label. The columns that \<open>get_turnover\<close>
  reads hold numbers; the four columns it writes are \<open>None\<close> (\<open>nan\<close>) until written.
\<close>

record dpars_row =
  dp_cell_type :: string
  dp_half_life :: real
  dp_half_life_error :: real
  dp_growth_rate :: real
  dp_growth_rate_standard_error :: real
  dp_poolsize :: npfloat
  dp_poolsize_sd :: npfloat
  dp_turnover :: npfloat
  dp_turnover_error :: npfloat

record nad_conc_row =
  nc_cell_type :: string
  nc_mean :: real
  nc_sd :: real

text \<open>
  With \<open>growth_correction\<close> the growth rate and its standard error are read as columns
  (one value per row of the cell, no \<open>.iloc[0]\<close>), so the error is a column too: on
  assignment a row receives the value computed from its own growth rate, and \<open>nan\<close> when
  it is not among the rows the growth rate was read from.
\<close>

definition turnover_error_of ::
  "npfloat \<Rightarrow> real \<Rightarrow> real \<Rightarrow> real \<Rightarrow> real \<Rightarrow> (real \<times> real) option \<Rightarrow> npfloat" where
  "turnover_error_of turnover poolsize poolsize_error hl hle growth =
     do {
       t \<leftarrow> turnover;
       q1 \<leftarrow> np_div poolsize_error poolsize;
       q2 \<leftarrow> np_div hle hl;
       q3 \<leftarrow> (case growth of
                None \<Rightarrow> Some 0
              | Some (gr, gre) \<Rightarrow> do { q \<leftarrow> np_div gre gr; Some (q ^ 2) });
       s \<leftarrow> np_sqrt (q1 ^ 2 + q2 ^ 2 + q3);
       Some (t * s)
     }"

definition get_turnover ::
  "dpars_row list \<Rightarrow> nad_conc_row list \<Rightarrow> string \<Rightarrow> string \<Rightarrow> bool
     \<Rightarrow> py_error + dpars_row list" where
  "get_turnover dpars nad_conc cell cell_line growth_correction =
     (case iloc0 (filter (\<lambda>r. dp_cell_type r = cell) dpars) of
        Inl e \<Rightarrow> Inl e
      | Inr r0 \<Rightarrow>
          let hl = dp_half_life r0;
              hle = dp_half_life_error r0;
              cell1 = (if cell = cell_line then ''wt'' else cell)
          in (case iloc0 (filter (\<lambda>n. nc_cell_type n = cell1) nad_conc) of
                Inl e \<Rightarrow> Inl e
              | Inr n0 \<Rightarrow>
                  let poolsize = nc_mean n0;
                      poolsize_error = nc_sd n0;
                      turnover = np_div (poolsize / 2) hl;
                      turnover_error = (\<lambda>r.
                        if growth_correction
                        then (if dp_cell_type r = cell
                              then turnover_error_of turnover poolsize poolsize_error hl hle
                                     (Some (dp_growth_rate r, dp_growth_rate_standard_error r))
                              else None)
                        else turnover_error_of turnover poolsize poolsize_error hl hle None);
                      cell2 = (if cell1 = ''wt'' then cell_line else cell1)
                  in Inr (map (\<lambda>r.
                       if dp_cell_type r = cell2
                       then r\<lparr>dp_poolsize := Some poolsize,
                              dp_poolsize_sd := Some poolsize_error,
                              dp_turnover := turnover,
                              dp_turnover_error := turnover_error r\<rparr>
                       else r) dpars)))"

section \<open>proteomics\_analyses/calculate\_fold\_changes\_p001.py: the comparison loop\<close>










section \<open>python\_scripts/convert\_csv.py: \<open>analyse_rawfiles\<close>\<close>


















section \<open>python\_scripts/convert\_csv.py: \<open>analyse_metabolites\<close>\<close>

text \<open>
  The table of this function has columns that depend on the list of metabolites, so it is
  modelled with named columns: the names of its index levels, the names of its columns,
  and its rows as functions from a column name to a cell (read only at the names of the
  table). A cell is a number (\<open>nan\<close> included) or a string.
\<close>

datatype cell = Float npfloat | Str string
















section \<open>scripts/half\_life\_estimation.py: \<open>calc_half_life_table\<close>\<close>

text \<open>
  A value in the table of half-lives: a number, or a time formatted as a string.
\<close>

datatype hl_value = Num npfloat | Text string
















section \<open>Notions used in the proofs\<close>







section \<open>Example inputs\<close>




section \<open>Half-life from the fitted parameters\<close>

lemma ln_four: "ln (4::real) = 2 * ln 2"
proof -
  have "ln (4::real) = ln (2 ^ 2)" by simp
  also have "\<dots> = 2 * ln 2" by (simp only: ln_realpow)
  finally show ?thesis .
qed

text \<open>
  C1, as stated: both \<open>calc_half_life\<close> and \<open>half_life\<close> return \<open>ln(2*a)/b\<close>. This fails
  for \<open>half_life\<close> of new\_utils.py, which ignores the prefactor: at \<open>popt = (2, 1)\<close> it
  returns \<open>ln 2\<close>, not \<open>ln 4\<close>.
\<close>

theorem half_life_ignores_prefactor:
  "fst (half_life (2, 1) ((0, 0), (0, 0))) \<noteq> Some (ln (2 * 2) / 1)"
proof -
  have "ln (2::real) > 0" by simp
  then show ?thesis
    by (simp add: half_life_def np_log_def np_div_def Let_def ln_four)
qed

text \<open>
  C1, amended: for a prefactor \<open>a > 0\<close> and an exponential factor \<open>b \<noteq> 0\<close>,
  \<open>calc_half_life\<close> returns \<open>ln(2*a)/b\<close>, with the prefactor inside the logarithm, while
  \<open>half_life\<close> of new\_utils.py returns \<open>ln(2)/b\<close>, whatever the prefactor and the
  covariance matrix are.
\<close>

theorem half_life_formulas:
  assumes "0 < a" and "b \<noteq> 0"
  shows "calc_half_life a b = Some (ln (2 * a) / b)
       \<and> fst (half_life (a, b) pcov) = Some (ln 2 / b)"
  using assms
  by (simp add: calc_half_life_def half_life_def np_log_def np_div_def Let_def)

theorem half_life_formulas_witness:
  "(0::real) < 2 \<and> (1::real) \<noteq> 0
   \<and> calc_half_life 2 1 = Some (ln (2 * 2) / 1)
   \<and> fst (half_life (2, 1) ((0, 0), (0, 0))) = Some (ln 2 / 1)"
  using half_life_formulas [of 2 1 "((0, 0), (0, 0))"] by simp




section \<open>Formatting of times\<close>

lemma py_int_nonneg: "0 \<le> x \<Longrightarrow> py_int x = \<lfloor>x\<rfloor>"
  by (simp add: py_int_def)

lemma py_int_of_int: "py_int (of_int k) = k"
  by (simp add: py_int_def)

lemma floor_div24: "\<lfloor>(of_int w :: real) / 24\<rfloor> = w div 24"
proof -
  have "\<lfloor>(of_int w :: real) / of_int 24\<rfloor> = w div 24"
    by (rule floor_divide_of_int_eq)
  then show ?thesis by simp
qed

lemma py_int_div24: "0 \<le> w \<Longrightarrow> py_int (of_int w / 24) = w div 24"
  by (simp add: py_int_nonneg floor_div24)

lemma math_modf_nonneg:
  "0 \<le> t \<Longrightarrow> math_modf t = (t - of_int \<lfloor>t\<rfloor>, of_int \<lfloor>t\<rfloor>)"
  by (simp add: math_modf_def py_int_nonneg)

lemma pretty_print_time_nonneg:
  assumes "0 \<le> t"
  shows "pretty_print_time t =
     (let w = \<lfloor>t\<rfloor>; m = py_round ((t - of_int w) * 60)
      in if w = 0 then str_int m @ ''min''
         else if w < 24 then str_int w @ ''h '' @ str_int m @ ''min''
         else str_int (w div 24) @ ''d '' @ str_int (w mod 24) @ ''h '' @ str_int m @ ''min'')"
proof -
  define w where "w = \<lfloor>t\<rfloor>"
  have w: "0 \<le> w" using assms by (simp add: w_def)
  have m: "math_modf t = (t - of_int w, of_int w)"
    using assms by (simp add: math_modf_nonneg w_def)
  have d: "py_int (of_int w / 24) = w div 24"
    using w by (rule py_int_div24)
  have "pretty_print_time t =
     (let m = py_round ((t - of_int w) * 60)
      in if w = 0 then str_int m @ ''min''
         else if w < 24 then str_int w @ ''h '' @ str_int m @ ''min''
         else str_int (w div 24) @ ''d '' @ str_int (w mod 24) @ ''h '' @ str_int m @ ''min'')"
    unfolding pretty_print_time_def m by (simp only: prod.case py_int_of_int d Let_def)
  then show ?thesis by (simp only: w_def Let_def)
qed




text \<open>
  C10: rounded minutes are never carried into the hours. For every time \<open>t \<ge> 0\<close> whose
  fractional part rounds to \<open>60\<close> minutes, the string ends in \<open>60min\<close> and its hours (and
  days) are those of the floor of \<open>t\<close>, not of the next hour; so
  \<open>pretty_print_time(0.999)\<close> is \<open>"60min"\<close>.
\<close>

theorem pretty_print_time_no_carry:
  assumes "0 \<le> t" and "py_round (fst (math_modf t) * 60) = 60"
  shows "pretty_print_time t =
     (if \<lfloor>t\<rfloor> = 0 then ''60min''
      else if \<lfloor>t\<rfloor> < 24 then str_int \<lfloor>t\<rfloor> @ ''h 60min''
      else str_int (\<lfloor>t\<rfloor> div 24) @ ''d '' @ str_int (\<lfloor>t\<rfloor> mod 24) @ ''h 60min'')"
proof -
  have s60: "str_int 60 = ''60''" by code_simp
  have r: "py_round ((t - of_int \<lfloor>t\<rfloor>) * 60) = 60"
    using assms by (simp only: math_modf_nonneg fst_conv)
  show ?thesis
    unfolding pretty_print_time_nonneg [OF assms(1)] Let_def r s60 by simp
qed

theorem pretty_print_time_no_carry_witness:
  "(0::real) \<le> 999 / 1000 \<and> py_round (fst (math_modf (999 / 1000)) * 60) = 60
   \<and> pretty_print_time (999 / 1000) = ''60min''"
proof -
  have h: "py_round (fst (math_modf (999 / 1000)) * 60) = 60" by code_simp
  show ?thesis using pretty_print_time_no_carry [of "999 / 1000", OF _ h] h by simp
qed

section \<open>Propagated standard deviation of the half-life\<close>

lemma sd_closed_form:
  assumes "0 < a" "0 < b" "0 \<le> c00" "0 \<le> c11"
  shows "calc_half_life_standard_deviation a b ((c00, c01), (c10, c11))
       = Some (sqrt (c00 / (a * b)^2 + (ln (2 * a))^2 * c11 / b^4))"
proof -
  have 1: "(sqrt c00 / (a * b))^2 = c00 / (a * b)^2"
    using assms by (simp add: power_divide)
  have 2: "(ln (2 * a) * sqrt c11 / b^2)^2 = (ln (2 * a))^2 * c11 / b^4"
    using assms by (simp add: power_divide power_mult_distrib)
  have "calc_half_life_standard_deviation a b ((c00, c01), (c10, c11))
       = Some (sqrt ((sqrt c00 / (a * b))^2 + (ln (2 * a) * sqrt c11 / b^2)^2))"
    using assms
    by (simp add: calc_half_life_standard_deviation_def np_sqrt_def np_div_def np_log_def Let_def)
  then show ?thesis by (simp only: 1 2)
qed

lemma sd_small:
  assumes a: "0 < a" and b: "0 < b" and e: "0 < e"
  shows "\<exists>d>0. \<forall>c00 c01 c10 c11.
           0 \<le> c00 \<and> c00 < d \<and> 0 \<le> c11 \<and> c11 < d \<and> \<bar>c01\<bar> < d \<and> \<bar>c10\<bar> < d \<longrightarrow>
           (\<exists>s. calc_half_life_standard_deviation a b ((c00, c01), (c10, c11)) = Some s
                \<and> 0 \<le> s \<and> s < e)"
proof -
  define k1 where "k1 = 1 / (a * b)^2"
  define k2 where "k2 = (ln (2 * a))^2 / b^4"
  define d where "d = e^2 / (k1 + k2 + 1)"
  have k1: "0 \<le> k1" by (simp add: k1_def)
  have k2: "0 \<le> k2" by (simp add: k2_def)
  have kpos: "0 < k1 + k2 + 1" using k1 k2 by linarith
  have dpos: "0 < d" using e kpos by (simp add: d_def)
  have dk: "d * (k1 + k2 + 1) = e^2" using kpos by (simp add: d_def)
  have "\<exists>s. calc_half_life_standard_deviation a b ((c00, c01), (c10, c11)) = Some s
                \<and> 0 \<le> s \<and> s < e"
    if h: "0 \<le> c00" "c00 < d" "0 \<le> c11" "c11 < d" for c00 c01 c10 c11
  proof -
    let ?x = "c00 / (a * b)^2 + (ln (2 * a))^2 * c11 / b^4"
    have x: "?x = k1 * c00 + k2 * c11" by (simp add: k1_def k2_def)
    have "k1 * c00 \<le> k1 * d" using h k1 by (simp add: mult_left_mono)
    moreover have "k2 * c11 \<le> k2 * d" using h k2 by (simp add: mult_left_mono)
    ultimately have "?x \<le> d * (k1 + k2)" unfolding x by (simp add: algebra_simps)
    also have "\<dots> < d * (k1 + k2 + 1)" using dpos by (simp add: algebra_simps)
    finally have lt: "?x < e^2" by (simp only: dk)
    have x0: "0 \<le> ?x" unfolding x using h k1 k2 by simp
    have "sqrt ?x < e" using lt e by (simp add: real_less_lsqrt)
    moreover have "0 \<le> sqrt ?x" using x0 by simp
    ultimately show ?thesis
      using sd_closed_form [OF a b h(1) h(3), of c01 c10] by blast
  qed
  then show ?thesis using dpos by blast
qed

text \<open>
  C3: for a prefactor \<open>a > 0\<close> and an exponential factor \<open>b > 0\<close>, the propagated
  standard deviation is zero for the zero covariance matrix, and it tends to zero with
  the entries of the covariance matrix: for every bound \<open>e > 0\<close> there is a \<open>d > 0\<close> such
  that every covariance matrix (its variances on the diagonal are not negative) with all
  entries below \<open>d\<close> in absolute value gives a standard deviation below \<open>e\<close>.
\<close>

theorem calc_half_life_standard_deviation_vanishes:
  assumes "0 < a" and "0 < b"
  shows "calc_half_life_standard_deviation a b ((0, 0), (0, 0)) = Some 0
       \<and> (\<forall>e>0. \<exists>d>0. \<forall>c00 c01 c10 c11.
           0 \<le> c00 \<and> c00 < d \<and> 0 \<le> c11 \<and> c11 < d \<and> \<bar>c01\<bar> < d \<and> \<bar>c10\<bar> < d \<longrightarrow>
           (\<exists>s. calc_half_life_standard_deviation a b ((c00, c01), (c10, c11)) = Some s
                \<and> 0 \<le> s \<and> s < e))"
proof (intro conjI allI impI)
  show "calc_half_life_standard_deviation a b ((0, 0), (0, 0)) = Some 0"
    using assms by (simp add: sd_closed_form)
next
  fix e :: real assume "0 < e"
  with assms show "\<exists>d>0. \<forall>c00 c01 c10 c11.
           0 \<le> c00 \<and> c00 < d \<and> 0 \<le> c11 \<and> c11 < d \<and> \<bar>c01\<bar> < d \<and> \<bar>c10\<bar> < d \<longrightarrow>
           (\<exists>s. calc_half_life_standard_deviation a b ((c00, c01), (c10, c11)) = Some s
                \<and> 0 \<le> s \<and> s < e)"
    by (rule sd_small)
qed

theorem calc_half_life_standard_deviation_vanishes_witness:
  "(0::real) < 1 \<and> calc_half_life_standard_deviation 1 1 ((0, 0), (0, 0)) = Some 0
   \<and> (\<exists>d>0. \<exists>s. calc_half_life_standard_deviation 1 1 ((d / 2, 0), (0, d / 2)) = Some s
                \<and> 0 \<le> s \<and> s < 1)"
proof -
  have t: "calc_half_life_standard_deviation 1 1 ((0, 0), (0, 0)) = Some 0
       \<and> (\<forall>e>0. \<exists>d>0. \<forall>c00 c01 c10 c11.
           0 \<le> c00 \<and> c00 < d \<and> 0 \<le> c11 \<and> c11 < d \<and> \<bar>c01\<bar> < d \<and> \<bar>c10\<bar> < d \<longrightarrow>
           (\<exists>s. calc_half_life_standard_deviation 1 1 ((c00, c01), (c10, c11)) = Some s
                \<and> 0 \<le> s \<and> s < e))"
    using calc_half_life_standard_deviation_vanishes [of 1 1] by simp
  then obtain d where d: "0 < d" and
    all: "\<forall>c00 c01 c10 c11.
           0 \<le> c00 \<and> c00 < d \<and> 0 \<le> c11 \<and> c11 < d \<and> \<bar>c01\<bar> < d \<and> \<bar>c10\<bar> < d \<longrightarrow>
           (\<exists>s. calc_half_life_standard_deviation 1 1 ((c00, c01), (c10, c11)) = Some s
                \<and> 0 \<le> s \<and> s < 1)"
    by (metis zero_less_one)
  have "0 \<le> d / 2 \<and> d / 2 < d \<and> 0 \<le> d / 2 \<and> d / 2 < d \<and> \<bar>0::real\<bar> < d \<and> \<bar>0::real\<bar> < d"
    using d by simp
  with all have "\<exists>s. calc_half_life_standard_deviation 1 1 ((d / 2, 0), (0, d / 2)) = Some s
                \<and> 0 \<le> s \<and> s < 1" by blast
  with d t show ?thesis by auto
qed

section \<open>Turnover from pool size and half-life\<close>

text \<open>
  C6: \<open>get_turnover\<close> finds the half-life in the first row of \<open>dpars\<close> for the cell and
  the pool size in the first row of \<open>nad_conc\<close> for it (the row \<open>wt\<close> when the cell is
  the cell line itself). When both rows exist it returns the table with the turnover of
  the cell's rows set to \<open>(poolsize / 2) / half_life\<close>, whether or not the growth
  correction is on, and with every other row as it was. \<open>calc_turnover_cell\<close> returns the
  pool size minus what the fitted decay leaves of it after one hour.
\<close>

theorem get_turnover_value:
  assumes d: "filter (\<lambda>r. dp_cell_type r = cell) dpars = r0 # rs"
    and n: "filter (\<lambda>n. nc_cell_type n = (if cell = cell_line then ''wt'' else cell)) nad_conc = n0 # ns"
  shows "(\<exists>dpars'. get_turnover dpars nad_conc cell cell_line growth_correction = Inr dpars'
          \<and> length dpars' = length dpars
          \<and> (\<forall>i<length dpars.
               if dp_cell_type (dpars ! i) = (if cell = ''wt'' then cell_line else cell)
               then dp_turnover (dpars' ! i) = np_div (nc_mean n0 / 2) (dp_half_life r0)
                  \<and> dp_poolsize (dpars' ! i) = Some (nc_mean n0)
               else dpars' ! i = dpars ! i))
     \<and> calc_turnover_cell prefactor exp_factor nad_amount_cell
           = nad_amount_cell - func_exp_decay 1 prefactor exp_factor * nad_amount_cell
     \<and> calc_turnover_cell prefactor exp_factor nad_amount_cell
           = nad_amount_cell * (1 - prefactor * exp (- exp_factor))"
proof (intro conjI)
  have c2: "(if (if cell = cell_line then ''wt'' else cell) = ''wt'' then cell_line
             else (if cell = cell_line then ''wt'' else cell))
            = (if cell = ''wt'' then cell_line else cell)"
    by simp
  show "\<exists>dpars'. get_turnover dpars nad_conc cell cell_line growth_correction = Inr dpars'
          \<and> length dpars' = length dpars
          \<and> (\<forall>i<length dpars.
               if dp_cell_type (dpars ! i) = (if cell = ''wt'' then cell_line else cell)
               then dp_turnover (dpars' ! i) = np_div (nc_mean n0 / 2) (dp_half_life r0)
                  \<and> dp_poolsize (dpars' ! i) = Some (nc_mean n0)
               else dpars' ! i = dpars ! i)"
    unfolding get_turnover_def d n iloc0_def Let_def c2
    by (simp del: One_nat_def)
  show "calc_turnover_cell prefactor exp_factor nad_amount_cell
           = nad_amount_cell - func_exp_decay 1 prefactor exp_factor * nad_amount_cell"
    by (simp add: calc_turnover_cell_def)
  show "calc_turnover_cell prefactor exp_factor nad_amount_cell
           = nad_amount_cell * (1 - prefactor * exp (- exp_factor))"
    by (simp add: calc_turnover_cell_def func_exp_decay_def algebra_simps)
qed

theorem get_turnover_value_witness:
  "filter (\<lambda>r. dp_cell_type r = ''HeLa'')
      [\<lparr>dp_cell_type = ''HeLa'', dp_half_life = 2, dp_half_life_error = 1,
        dp_growth_rate = 1, dp_growth_rate_standard_error = 1, dp_poolsize = None,
        dp_poolsize_sd = None, dp_turnover = None, dp_turnover_error = None\<rparr>]
     = [\<lparr>dp_cell_type = ''HeLa'', dp_half_life = 2, dp_half_life_error = 1,
        dp_growth_rate = 1, dp_growth_rate_standard_error = 1, dp_poolsize = None,
        dp_poolsize_sd = None, dp_turnover = None, dp_turnover_error = None\<rparr>]
   \<and> filter (\<lambda>n. nc_cell_type n = (if ''HeLa'' = ''HeLa'' then ''wt'' else ''HeLa''))
        [\<lparr>nc_cell_type = ''wt'', nc_mean = 8, nc_sd = 1\<rparr>]
     = [\<lparr>nc_cell_type = ''wt'', nc_mean = 8, nc_sd = 1\<rparr>]
   \<and> (\<exists>dpars'. get_turnover
        [\<lparr>dp_cell_type = ''HeLa'', dp_half_life = 2, dp_half_life_error = 1,
          dp_growth_rate = 1, dp_growth_rate_standard_error = 1, dp_poolsize = None,
          dp_poolsize_sd = None, dp_turnover = None, dp_turnover_error = None\<rparr>]
        [\<lparr>nc_cell_type = ''wt'', nc_mean = 8, nc_sd = 1\<rparr>] ''HeLa'' ''HeLa'' True = Inr dpars'
      \<and> dp_turnover (dpars' ! 0) = Some 2)
   \<and> calc_turnover_cell 1 0 5 = 0"
proof -
  let ?r = "\<lparr>dp_cell_type = ''HeLa'', dp_half_life = 2, dp_half_life_error = 1,
        dp_growth_rate = 1, dp_growth_rate_standard_error = 1, dp_poolsize = None,
        dp_poolsize_sd = None, dp_turnover = None, dp_turnover_error = None\<rparr>"
  let ?n = "\<lparr>nc_cell_type = ''wt'', nc_mean = 8, nc_sd = 1\<rparr>"
  have h1: "filter (\<lambda>r. dp_cell_type r = ''HeLa'') [?r] = ?r # []" by simp
  have h2: "filter (\<lambda>n. nc_cell_type n = (if ''HeLa'' = ''HeLa'' then ''wt'' else ''HeLa'')) [?n] = ?n # []"
    by simp
  note t = get_turnover_value [OF h1 h2, of True 1 0 5]
  from t obtain dpars' where
    g: "get_turnover [?r] [?n] ''HeLa'' ''HeLa'' True = Inr dpars'" and
    a: "\<forall>i<length [?r].
               if dp_cell_type ([?r] ! i) = (if ''HeLa'' = ''wt'' then ''HeLa'' else ''HeLa'')
               then dp_turnover (dpars' ! i) = np_div (nc_mean ?n / 2) (dp_half_life ?r)
                  \<and> dp_poolsize (dpars' ! i) = Some (nc_mean ?n)
               else dpars' ! i = [?r] ! i"
    by blast
  from a have "dp_turnover (dpars' ! 0) = Some 2"
    by (simp add: np_div_def)
  with g have "\<exists>dpars'. get_turnover [?r] [?n] ''HeLa'' ''HeLa'' True = Inr dpars'
      \<and> dp_turnover (dpars' ! 0) = Some 2" by blast
  moreover have "calc_turnover_cell 1 0 5 = 0" using t by simp
  ultimately show ?thesis using h1 h2 by simp
qed

section \<open>Fold changes between conditions\<close>











section \<open>Percentages of labelled and unlabelled amounts\<close>









lemma last_unlabelled: "last (m @ '':No label'') = CHR ''l''"
  by simp

lemma last_labelled: "last (m @ '':'' @ L @ ''C13'') = CHR ''3''"
  by simp

lemma last_percent: "last (s @ ''_percent'') = CHR ''t''"
  by simp
































section \<open>Exceptions raised by the functions themselves\<close>






end
